theory Spec2Isabelle
  imports Complex_Main "HOL-Library.Sublist" "HOL-Library.AList"
begin

section \<open>Values of the platform\<close>

subsection \<open>JSON values\<close>

text \<open>
  The server keeps its three documents as JSON text and handles them as the values
  \<^verbatim>\<open>JSON.parse\<close> returns. A JavaScript string is a list of code units, an object is the
  list of its own properties in insertion order. A property that is absent, and the value
  \<^verbatim>\<open>undefined\<close>, is \<open>None\<close> of type \<open>json option\<close>.
\<close>

datatype json =
    JNull
  | JBool bool
  | JNum rat
  | JStr string
  | JArr "json list"
  | JObj "(string \<times> json) list"

text \<open>Truthiness, as \<^verbatim>\<open>||\<close> and \<^verbatim>\<open>?:\<close> test it.\<close>

fun truthy :: "json option \<Rightarrow> bool" where
  "truthy None = False"
| "truthy (Some JNull) = False"
| "truthy (Some (JBool b)) = b"
| "truthy (Some (JNum n)) = (n \<noteq> 0)"
| "truthy (Some (JStr s)) = (s \<noteq> [])"
| "truthy (Some (JArr xs)) = True"
| "truthy (Some (JObj kvs)) = True"

text \<open>\<^verbatim>\<open>v || ''\<close>\<close>

definition or_empty :: "json option \<Rightarrow> json" where
  "or_empty v = (case v of None \<Rightarrow> JStr [] | Some x \<Rightarrow> if truthy v then x else JStr [])"

text \<open>
  \<^verbatim>\<open>v === p\<close> for a primitive \<open>p\<close> (a string or a boolean): the same type and the same
  value. An absent value is strictly equal to no primitive.
\<close>

definition strict_eq :: "json option \<Rightarrow> json \<Rightarrow> bool" where
  "strict_eq v p = (v = Some p)"

subsection \<open>Numbers and instants as text\<close>

text \<open>The decimal numeral of a natural number, as \<^verbatim>\<open>n + '-'\<close> produces it.\<close>

fun dec :: "nat \<Rightarrow> string" where
  "dec n = (if n < 10 then [''0123456789'' ! n] else dec (n div 10) @ [''0123456789'' ! (n mod 10)])"

declare dec.simps [simp del]

text \<open>The fixed-width fields of a date: a number in decimal, with leading zeros.\<close>

definition digit :: "nat \<Rightarrow> char" where
  "digit d = ''0123456789'' ! (d mod 10)"

definition pad2 :: "nat \<Rightarrow> string" where
  "pad2 n = [digit (n div 10), digit n]"

definition pad3 :: "nat \<Rightarrow> string" where
  "pad3 n = digit (n div 100) # pad2 n"

definition pad4 :: "nat \<Rightarrow> string" where
  "pad4 n = digit (n div 1000) # pad3 n"

definition pad6 :: "nat \<Rightarrow> string" where
  "pad6 n = digit (n div 100000) # digit (n div 10000) # pad4 n"

text \<open>
  The civil date (year, month, day) of a day count since 1970-01-01, in the proleptic
  Gregorian calendar that \<^verbatim>\<open>Date\<close> uses.
\<close>

definition civil_from_days :: "nat \<Rightarrow> nat \<times> nat \<times> nat" where
  "civil_from_days z =
     (let z1 = z + 719468;
          era = z1 div 146097;
          doe = z1 mod 146097;
          yoe = (doe + doe div 36524 - doe div 1460 - doe div 146096) div 365;
          doy = doe + yoe div 100 - (365 * yoe + yoe div 4);
          mp = (5 * doy + 2) div 153;
          d = doy + 1 - (153 * mp + 2) div 5;
          m = (if mp < 10 then mp + 3 else mp - 9);
          y = yoe + era * 400 + (if m \<le> 2 then 1 else 0)
      in (y, m, d))"

text \<open>
  \<^verbatim>\<open>new Date(t).toISOString()\<close> for an instant \<open>t\<close> in milliseconds since the epoch:
  \<^verbatim>\<open>YYYY-MM-DDTHH:mm:ss.sssZ\<close>, the year with six digits and a sign beyond 9999.
\<close>

definition toISOString :: "nat \<Rightarrow> string" where
  "toISOString t =
     (case civil_from_days (t div 86400000) of (y, m, d) \<Rightarrow>
        (if y \<le> 9999 then pad4 y else CHR ''+'' # pad6 y)
        @ ''-'' @ pad2 m @ ''-'' @ pad2 d
        @ ''T'' @ pad2 (t div 3600000 mod 24)
        @ '':'' @ pad2 (t div 60000 mod 60)
        @ '':'' @ pad2 (t div 1000 mod 60)
        @ ''.'' @ pad3 (t mod 1000) @ ''Z'')"

subsection \<open>Exceptions\<close>

text \<open>
  What the platform throws inside the server's \<^verbatim>\<open>try\<close> blocks: a file that does not
  exist (\<open>ENOENT\<close>), any other failure of an I/O call (\<open>EIO\<close>), text that
  \<^verbatim>\<open>JSON.parse\<close> rejects, and a property read or a call on a value that has none.
\<close>

datatype exn = ENOENT | EIO | SyntaxError | TypeError

definition and_then :: "'e + 'a \<Rightarrow> ('a \<Rightarrow> 'e + 'b) \<Rightarrow> 'e + 'b" where
  "and_then m f = (case m of Inl e \<Rightarrow> Inl e | Inr x \<Rightarrow> f x)"

subsection \<open>JSON text\<close>

text \<open>
  The text of a data file is either text that \<^verbatim>\<open>JSON.parse\<close> accepts, represented by the
  value it parses to, or text that it rejects. \<^verbatim>\<open>JSON.stringify(v, null, 2)\<close> produces
  the text of \<open>v\<close>: every value the server writes is built from strings, booleans,
  \<^verbatim>\<open>null\<close>, arrays and objects of parsed values, on which serialising and parsing back is
  the identity.
\<close>

datatype file_text = JsonText json | Malformed

definition JSON_stringify :: "json \<Rightarrow> file_text" where
  "JSON_stringify v = JsonText v"

fun JSON_parse :: "file_text \<Rightarrow> exn + json" where
  "JSON_parse (JsonText v) = Inr v"
| "JSON_parse Malformed = Inl SyntaxError"

section \<open>The world of the server\<close>

text \<open>
  The three data files (\<^verbatim>\<open>status.json\<close>, \<^verbatim>\<open>gallery.json\<close>,
  \<^verbatim>\<open>hero-background.json\<close>), the two upload directories, the clock, the next value of
  \<^verbatim>\<open>Math.round(Math.random() * 1E9)\<close>, and the I/O calls that fail. A call that writes
  a file opens it with truncation and writes then: when it fails, it fails either before it
  has touched the file (\<open>tears\<close> is \<open>None\<close>) or after it has written the first \<open>k\<close>
  units of the new content into the emptied file (\<open>tears\<close> is \<open>Some k\<close>). Nothing is cached
  between requests: every read goes to the world, every write replaces a whole file. A
  request is handled at one instant of the clock; time passes between requests.
\<close>

datatype data_file = DATA_FILE | GALLERY_FILE | HERO_BG_FILE

datatype upload_dir = GALLERY_UPLOADS_DIR | HERO_UPLOADS_DIR

datatype io_call = ReadFile data_file | WriteFile data_file | DiskStorage upload_dir | Unlink upload_dir

type_synonym bytes = string

record world =
  files :: "data_file \<Rightarrow> file_text option"
  uploads :: "upload_dir \<Rightarrow> string \<Rightarrow> bytes option"
  fails :: "io_call \<Rightarrow> bool"
  tears :: "io_call \<Rightarrow> nat option"
  clock :: nat
  random :: nat

text \<open>Time passes between two calls: the clock never runs backwards.\<close>

definition advance :: "nat \<Rightarrow> world \<Rightarrow> world" where
  "advance d w = w\<lparr>clock := clock w + d\<rparr>"

text \<open>\<^verbatim>\<open>fs.readFile(f, 'utf8')\<close>\<close>

definition fs_readFile :: "world \<Rightarrow> data_file \<Rightarrow> exn + file_text" where
  "fs_readFile w f =
     (if fails w (ReadFile f) then Inl EIO
      else case files w f of None \<Rightarrow> Inl ENOENT | Some t \<Rightarrow> Inr t)"

text \<open>An exception thrown in a world: the \<^verbatim>\<open>catch\<close> runs in that world.\<close>

definition thrown_in :: "world \<Rightarrow> exn + 'a \<Rightarrow> exn \<times> world + 'a" where
  "thrown_in w m = (case m of Inl e \<Rightarrow> Inl (e, w) | Inr x \<Rightarrow> Inr x)"

text \<open>
  \<^verbatim>\<open>fs.writeFile(f, text)\<close> creates the file or replaces its whole content. It writes into
  the file itself, and the failures are those of opening the file and of writing into it:
  a write that fails after the file was opened leaves it empty or with a beginning of the
  new text, short of the whole. Every document the server writes is an object, and neither
  the empty text nor a text cut short of an object parses, so what a torn write leaves is
  \<open>Malformed\<close>. The exception comes with the world the failed write has left.
\<close>

definition fs_writeFile :: "world \<Rightarrow> data_file \<Rightarrow> file_text \<Rightarrow> exn \<times> world + world" where
  "fs_writeFile w f t =
     (if fails w (WriteFile f) then
        (case tears w (WriteFile f) of
           None \<Rightarrow> Inl (EIO, w)
         | Some k \<Rightarrow> Inl (EIO, w\<lparr>files := (files w)(f := Some Malformed)\<rparr>))
      else Inr (w\<lparr>files := (files w)(f := Some t)\<rparr>))"

text \<open>\<^verbatim>\<open>fs.unlink(path)\<close> of a file \<open>name\<close> in an upload directory.\<close>

definition fs_unlink :: "world \<Rightarrow> upload_dir \<Rightarrow> string \<Rightarrow> exn + world" where
  "fs_unlink w dir name =
     (if fails w (Unlink dir) then Inl EIO
      else case uploads w dir name of
        None \<Rightarrow> Inl ENOENT
      | Some b \<Rightarrow> Inr (w\<lparr>uploads := (uploads w)(dir := (uploads w dir)(name := None))\<rparr>))"

section \<open>The store: helper functions of the server\<close>

text \<open>
  Each reader catches every exception of its \<^verbatim>\<open>try\<close> block and returns a default
  instead; each writer lets the exception of \<^verbatim>\<open>fs.writeFile\<close> through, with the world
  that the failed write has left.
\<close>

definition readStatus :: "world \<Rightarrow> exn + json" where
  "readStatus w =
     (case and_then (fs_readFile w DATA_FILE) JSON_parse of
        Inr v \<Rightarrow> Inr v
      | Inl e \<Rightarrow>
          Inr (JObj [(''status'', JBool False), (''notice'', JStr []),
                     (''lastUpdated'', JStr (toISOString (clock w)))]))"

text \<open>
  \<^verbatim>\<open>{ ...data, lastUpdated: new Date().toISOString() }\<close>: the properties of \<open>data\<close> in
  their order, \<open>lastUpdated\<close> replaced where \<open>data\<close> has it and added last otherwise.
\<close>

definition writeStatus ::
  "world \<Rightarrow> (string \<times> json) list \<Rightarrow> exn \<times> world + json \<times> world" where
  "writeStatus w data =
     (let statusData = JObj (AList.update ''lastUpdated'' (JStr (toISOString (clock w))) data)
      in and_then (fs_writeFile w DATA_FILE (JSON_stringify statusData))
           (\<lambda>w'. Inr (statusData, w')))"

definition readGallery :: "world \<Rightarrow> exn + json" where
  "readGallery w =
     (case and_then (fs_readFile w GALLERY_FILE) JSON_parse of
        Inr v \<Rightarrow> Inr v
      | Inl e \<Rightarrow> Inr (JObj [(''images'', JArr [])]))"

definition writeGallery :: "world \<Rightarrow> json \<Rightarrow> exn \<times> world + json \<times> world" where
  "writeGallery w data =
     and_then (fs_writeFile w GALLERY_FILE (JSON_stringify data)) (\<lambda>w'. Inr (data, w'))"

definition readHeroBackground :: "world \<Rightarrow> exn + json" where
  "readHeroBackground w =
     (case and_then (fs_readFile w HERO_BG_FILE) JSON_parse of
        Inr v \<Rightarrow> Inr v
      | Inl e \<Rightarrow> Inr (JObj [(''filename'', JNull), (''uploadedAt'', JNull)]))"

definition writeHeroBackground :: "world \<Rightarrow> json \<Rightarrow> exn \<times> world + json \<times> world" where
  "writeHeroBackground w data =
     and_then (fs_writeFile w HERO_BG_FILE (JSON_stringify data)) (\<lambda>w'. Inr (data, w'))"

section \<open>The access guard\<close>

text \<open>
  \<^verbatim>\<open>const ADMIN_PASSWORD = process.env.ADMIN_PASSWORD || 'noblesrhyl1121'\<close>, from the
  environment variable (\<open>None\<close> when it is unset; an empty value is falsy).
\<close>

definition ADMIN_PASSWORD :: "string option \<Rightarrow> string" where
  "ADMIN_PASSWORD env =
     (case env of
        None \<Rightarrow> ''noblesrhyl1121''
      | Some s \<Rightarrow> if s \<noteq> [] then s else ''noblesrhyl1121'')"

text \<open>
  The guard every mutating route starts with is
  \<^verbatim>\<open>if (req.body.password !== ADMIN_PASSWORD) return res.status(401)...\<close>; \<open>authorize\<close>
  is the condition under which the route goes on.
\<close>

definition authorize :: "string option \<Rightarrow> json option \<Rightarrow> bool" where
  "authorize env suppliedSecret = strict_eq suppliedSecret (JStr (ADMIN_PASSWORD env))"

section \<open>Requests and responses\<close>

text \<open>
  The fields of \<^verbatim>\<open>req.body\<close> that the routes read, each absent or a value
  (\<^verbatim>\<open>req.body\<close> itself is an object: the body parsers and multer provide one), and the
  file part of a multipart request, if it has one: what multer passes to the callbacks
  (\<^verbatim>\<open>file.fieldname\<close>, \<^verbatim>\<open>file.originalname\<close>, \<^verbatim>\<open>file.mimetype\<close>) and the payload.
\<close>

record req_body =
  password :: "json option"
  status :: "json option"
  notice :: "json option"
  description :: "json option"

record file_info =
  fieldname :: string
  originalname :: string
  mimetype :: string

record request =
  body :: req_body
  file_part :: "(file_info \<times> bytes) option"

text \<open>\<^verbatim>\<open>req.file\<close> of a stored upload; its \<^verbatim>\<open>path\<close> is \<open>filename\<close> in \<open>destination\<close>.\<close>

record stored_file = file_info +
  destination :: upload_dir
  filename :: string

text \<open>
  How a request can fail. The routes answer \<^verbatim>\<open>401 {error: 'Unauthorized'}\<close>,
  \<^verbatim>\<open>400 {error: 'No file uploaded'}\<close>, \<^verbatim>\<open>400 {error: 'Gallery full (10 max)'}\<close>,
  \<^verbatim>\<open>500 {error: 'Upload failed'}\<close> and \<^verbatim>\<open>500 {error: 'Update failed'}\<close>. The multer
  middleware fails before the route runs: \<open>RejectedUpload\<close> is the error
  \<^verbatim>\<open>'Only image files allowed'\<close> of the file filter, \<open>PayloadTooLarge\<close> is multer's
  \<^verbatim>\<open>LIMIT_FILE_SIZE\<close>, \<open>UnexpectedField\<close> its \<^verbatim>\<open>LIMIT_UNEXPECTED_FILE\<close>, and
  \<open>StorageError\<close> the error of the disk storage engine when the payload cannot be
  written.
\<close>

datatype error =
    Unauthorized
  | NoFileUploaded
  | GalleryFull
  | UploadFailed
  | UpdateFailed
  | RejectedUpload
  | PayloadTooLarge
  | UnexpectedField
  | StorageError

section \<open>The upload middleware\<close>

text \<open>
  \<^verbatim>\<open>path.extname\<close> (POSIX): from the last dot of the last portion of the path to its end;
  empty when that portion has no dot, when its only dot is its first character, and for
  \<^verbatim>\<open>..\<close>.
\<close>

definition path_extname :: "string \<Rightarrow> string" where
  "path_extname p =
     (let trimmed = rev (dropWhile (\<lambda>c. c = CHR ''/'') (rev p));
          base = rev (takeWhile (\<lambda>c. c \<noteq> CHR ''/'') (rev trimmed));
          ext = rev (takeWhile (\<lambda>c. c \<noteq> CHR ''.'') (rev base))
      in if CHR ''.'' \<notin> set base then []
         else if length base = Suc (length ext) then []
         else if base = ''..'' then []
         else CHR ''.'' # ext)"

text \<open>
  A multer instance: the destination and the filename callback of its disk storage, its
  \<^verbatim>\<open>limits.fileSize\<close>, and its file filter (\<open>True\<close> for \<^verbatim>\<open>cb(null, true)\<close>, \<open>False\<close>
  for \<^verbatim>\<open>cb(new Error(...))\<close>).
\<close>

record multer_options =
  storage_destination :: upload_dir
  storage_filename :: "world \<Rightarrow> file_info \<Rightarrow> string"
  limits_fileSize :: nat
  fileFilter :: "file_info \<Rightarrow> bool"

definition galleryStorage_filename :: "world \<Rightarrow> file_info \<Rightarrow> string" where
  "galleryStorage_filename w file =
     (let uniqueSuffix = dec (clock w) @ ''-'' @ dec (random w)
      in ''gallery-'' @ uniqueSuffix @ path_extname (originalname file))"

definition heroStorage_filename :: "world \<Rightarrow> file_info \<Rightarrow> string" where
  "heroStorage_filename w file = ''hero-background'' @ path_extname (originalname file)"

text \<open>The file filter of both instances: \<^verbatim>\<open>file.mimetype.startsWith('image/')\<close>.\<close>

definition image_fileFilter :: "file_info \<Rightarrow> bool" where
  "image_fileFilter file = prefix ''image/'' (mimetype file)"

definition uploadGallery :: multer_options where
  "uploadGallery =
     \<lparr>storage_destination = GALLERY_UPLOADS_DIR,
      storage_filename = galleryStorage_filename,
      limits_fileSize = 5 * 1024 * 1024,
      fileFilter = image_fileFilter\<rparr>"

definition uploadHero :: multer_options where
  "uploadHero =
     \<lparr>storage_destination = HERO_UPLOADS_DIR,
      storage_filename = heroStorage_filename,
      limits_fileSize = 10 * 1024 * 1024,
      fileFilter = image_fileFilter\<rparr>"

definition put_upload :: "world \<Rightarrow> upload_dir \<Rightarrow> string \<Rightarrow> bytes \<Rightarrow> world" where
  "put_upload w dir name b = w\<lparr>uploads := (uploads w)(dir := (uploads w dir)(name \<mapsto> b))\<rparr>"

text \<open>\<^verbatim>\<open>req.file\<close> for a file part that the instance has stored.\<close>

definition stored_as :: "multer_options \<Rightarrow> world \<Rightarrow> file_info \<Rightarrow> stored_file" where
  "stored_as opts w file =
     \<lparr>fieldname = fieldname file, originalname = originalname file, mimetype = mimetype file,
      destination = storage_destination opts, filename = storage_filename opts w file\<rparr>"

text \<open>
  \<^verbatim>\<open>upload.single(field)\<close>, run before the route's handler, on a request with at most one
  file part. A request without a file part, or with one that has no file name, passes with
  no \<^verbatim>\<open>req.file\<close>. A file part under another field name is refused; then the file
  filter decides; then the disk storage writes the payload to \<open>filename\<close> in
  \<open>destination\<close>, replacing a file of that name. A write that fails after the file was
  opened leaves the beginning of the payload under that name; multer does not remove it. A
  payload over the limit is cut at the limit, and the file that was written is removed
  again.
\<close>

definition multer_single ::
  "multer_options \<Rightarrow> string \<Rightarrow> world \<Rightarrow> request \<Rightarrow> (error + stored_file option) \<times> world" where
  "multer_single opts field w req =
     (case file_part req of
        None \<Rightarrow> (Inr None, w)
      | Some (file, payload) \<Rightarrow>
          let dir = storage_destination opts;
              name = storage_filename opts w file
          in if originalname file = [] then (Inr None, w)
             else if fieldname file \<noteq> field then (Inl UnexpectedField, w)
             else if \<not> fileFilter opts file then (Inl RejectedUpload, w)
             else if fails w (DiskStorage dir) then
               (Inl StorageError,
                case tears w (DiskStorage dir) of
                  None \<Rightarrow> w
                | Some k \<Rightarrow> put_upload w dir name (take k payload))
             else if limits_fileSize opts < length payload then
               (let cut = put_upload w dir name (take (limits_fileSize opts) payload)
                in (Inl PayloadTooLarge,
                    case fs_unlink cut dir name of Inr w' \<Rightarrow> w' | Inl e \<Rightarrow> cut))
             else
               (Inr (Some (stored_as opts w file)), put_upload w dir name payload))"

section \<open>The routes\<close>

subsection \<open>Reading the gallery document\<close>

text \<open>
  \<^verbatim>\<open>galleryData.images\<close> on a parsed document: \<^verbatim>\<open>null\<close> has no properties, an object
  has its own, every other value has none of this name.
\<close>

fun get_images :: "json \<Rightarrow> exn + json option" where
  "get_images JNull = Inl TypeError"
| "get_images (JObj kvs) = Inr (map_of kvs ''images'')"
| "get_images v = Inr None"

text \<open>
  \<^verbatim>\<open>images.length\<close>: a \<^verbatim>\<open>TypeError\<close> on \<^verbatim>\<open>undefined\<close> and \<^verbatim>\<open>null\<close>, the number of
  elements of an array, the number of code units of a string, the own property of an
  object, \<^verbatim>\<open>undefined\<close> on a boolean or a number.
\<close>

fun get_length :: "json option \<Rightarrow> exn + json option" where
  "get_length None = Inl TypeError"
| "get_length (Some JNull) = Inl TypeError"
| "get_length (Some (JArr xs)) = Inr (Some (JNum (of_nat (length xs))))"
| "get_length (Some (JStr s)) = Inr (Some (JNum (of_nat (length s))))"
| "get_length (Some (JObj kvs)) = Inr (map_of kvs ''length'')"
| "get_length (Some v) = Inr None"

text \<open>
  \<^verbatim>\<open>len >= 10\<close>: false on \<^verbatim>\<open>undefined\<close> (not a number), \<^verbatim>\<open>null\<close> (0) and a boolean
  (0 or 1). On a string, an array or an object the platform converts the value to a
  number first; that comparison is the parameter \<open>ge\<close>. Only a document whose
  \<open>images\<close> is an object with such a \<open>length\<close> gets there.
\<close>

fun ge10 :: "(json \<Rightarrow> bool) \<Rightarrow> json option \<Rightarrow> bool" where
  "ge10 ge None = False"
| "ge10 ge (Some JNull) = False"
| "ge10 ge (Some (JBool b)) = False"
| "ge10 ge (Some (JNum n)) = (10 \<le> n)"
| "ge10 ge (Some v) = ge v"

text \<open>
  \<^verbatim>\<open>galleryData.images.push(imageData)\<close>: only an array has \<^verbatim>\<open>push\<close>; the array is
  changed in place, so the document holds the longer array afterwards.
\<close>

definition images_push :: "json \<Rightarrow> json \<Rightarrow> exn + json" where
  "images_push galleryData imageData =
     (case galleryData of
        JObj kvs \<Rightarrow>
          (case map_of kvs ''images'' of
             Some (JArr xs) \<Rightarrow> Inr (JObj (AList.update ''images'' (JArr (xs @ [imageData])) kvs))
           | _ \<Rightarrow> Inl TypeError)
      | _ \<Rightarrow> Inl TypeError)"

subsection \<open>POST /admin/upload-gallery\<close>

text \<open>The metadata of a stored image, \<^verbatim>\<open>const imageData = {...}\<close>.\<close>

definition imageData :: "world \<Rightarrow> request \<Rightarrow> stored_file \<Rightarrow> json" where
  "imageData w req file =
     JObj [(''filename'', JStr (filename file)),
           (''originalName'', JStr (originalname file)),
           (''description'', or_empty (description (body req))),
           (''uploadedAt'', JStr (toISOString (clock w)))]"

text \<open>
  The \<^verbatim>\<open>try\<close> block of the handler from \<^verbatim>\<open>readGallery()\<close> on. Every step but the
  write of the gallery throws, if it throws, in the world the handler started with; a
  failing \<^verbatim>\<open>writeGallery\<close> throws in the world it has left. The \<^verbatim>\<open>catch\<close> of the handler
  answers in that world.
\<close>

definition upload_gallery_try ::
  "(json \<Rightarrow> bool) \<Rightarrow> world \<Rightarrow> request \<Rightarrow> stored_file
     \<Rightarrow> exn \<times> world + (error + json) \<times> world" where
  "upload_gallery_try ge w req file =
     and_then (thrown_in w (readGallery w)) (\<lambda>galleryData.
     and_then (thrown_in w (get_images galleryData)) (\<lambda>images.
     and_then (thrown_in w (get_length images)) (\<lambda>len.
       if ge10 ge len then
         and_then (thrown_in w (fs_unlink w (destination file) (filename file)))
           (\<lambda>w'. Inr (Inl GalleryFull, w'))
       else
         and_then (thrown_in w (images_push galleryData (imageData w req file))) (\<lambda>galleryData'.
         and_then (writeGallery w galleryData') (\<lambda>(written, w').
           Inr (Inr (JObj [(''success'', JBool True), (''image'', imageData w req file)]), w'))))))"

definition upload_gallery_handler ::
  "(json \<Rightarrow> bool) \<Rightarrow> string option \<Rightarrow> world \<Rightarrow> request \<Rightarrow> stored_file option
     \<Rightarrow> (error + json) \<times> world" where
  "upload_gallery_handler ge env w req file =
     (if \<not> authorize env (password (body req)) then (Inl Unauthorized, w)
      else case file of
        None \<Rightarrow> (Inl NoFileUploaded, w)
      | Some f \<Rightarrow>
          (case upload_gallery_try ge w req f of
             Inr r \<Rightarrow> r
           | Inl (e, w') \<Rightarrow> (Inl UploadFailed, w')))"

text \<open>
  The route: \<^verbatim>\<open>app.post('/admin/upload-gallery', uploadGallery.single('image'), handler)\<close>.
  An error of the middleware ends the request before the handler.
\<close>

definition post_upload_gallery ::
  "(json \<Rightarrow> bool) \<Rightarrow> string option \<Rightarrow> world \<Rightarrow> request \<Rightarrow> (error + json) \<times> world" where
  "post_upload_gallery ge env w req =
     (case multer_single uploadGallery ''image'' w req of
        (Inl e, w') \<Rightarrow> (Inl e, w')
      | (Inr file, w') \<Rightarrow> upload_gallery_handler ge env w' req file)"

subsection \<open>POST /admin/upload-hero\<close>

text \<open>The hero record, \<^verbatim>\<open>const heroData = {...}\<close>.\<close>

definition heroData :: "world \<Rightarrow> stored_file \<Rightarrow> json" where
  "heroData w file =
     JObj [(''filename'', JStr (filename file)),
           (''originalName'', JStr (originalname file)),
           (''uploadedAt'', JStr (toISOString (clock w)))]"

definition upload_hero_handler ::
  "string option \<Rightarrow> world \<Rightarrow> request \<Rightarrow> stored_file option \<Rightarrow> (error + json) \<times> world" where
  "upload_hero_handler env w req file =
     (if \<not> authorize env (password (body req)) then (Inl Unauthorized, w)
      else case file of
        None \<Rightarrow> (Inl NoFileUploaded, w)
      | Some f \<Rightarrow>
          (case writeHeroBackground w (heroData w f) of
             Inr (written, w') \<Rightarrow>
               (Inr (JObj [(''success'', JBool True), (''hero'', heroData w f)]), w')
           | Inl (e, w') \<Rightarrow> (Inl UploadFailed, w')))"

definition post_upload_hero ::
  "string option \<Rightarrow> world \<Rightarrow> request \<Rightarrow> (error + json) \<times> world" where
  "post_upload_hero env w req =
     (case multer_single uploadHero ''image'' w req of
        (Inl e, w') \<Rightarrow> (Inl e, w')
      | (Inr file, w') \<Rightarrow> upload_hero_handler env w' req file)"

subsection \<open>POST /admin/update-status\<close>

definition post_update_status ::
  "string option \<Rightarrow> world \<Rightarrow> request \<Rightarrow> (error + json) \<times> world" where
  "post_update_status env w req =
     (if \<not> authorize env (password (body req)) then (Inl Unauthorized, w)
      else
        (case writeStatus w
                [(''status'', JBool (strict_eq (status (body req)) (JStr ''true'')
                                     \<or> strict_eq (status (body req)) (JBool True))),
                 (''notice'', or_empty (notice (body req)))] of
           Inr (statusData, w') \<Rightarrow>
             (Inr (JObj [(''success'', JBool True), (''data'', statusData)]), w')
         | Inl (e, w') \<Rightarrow> (Inl UpdateFailed, w')))"

section \<open>The client: refresh interval of the mobile variant\<close>

text \<open>
  What the page reads from \<^verbatim>\<open>navigator\<close>: \<open>connection\<close> is \<open>None\<close> without the
  Network Information API, else the \<^verbatim>\<open>effectiveType\<close> (absent or a string);
  \<open>getBattery\<close> is \<open>None\<close> when \<^verbatim>\<open>'getBattery' in navigator\<close> is false, else the
  battery level the promise of \<^verbatim>\<open>navigator.getBattery()\<close> resolves with (\<open>None\<close> when it
  never does).
\<close>

record navigator =
  connection :: "string option option"
  getBattery :: "rat option option"

definition isSlowConnection :: "navigator \<Rightarrow> bool" where
  "isSlowConnection nav =
     (case connection nav of
        None \<Rightarrow> False
      | Some None \<Rightarrow> False
      | Some (Some effectiveType) \<Rightarrow>
          effectiveType \<noteq> [] \<and> effectiveType \<in> set [''slow-2g'', ''2g'', ''3g''])"

text \<open>The callback given to \<^verbatim>\<open>then\<close>: \<^verbatim>\<open>battery.level < 0.2 ? 60000 : 30000\<close>.\<close>

definition battery_callback :: "rat \<Rightarrow> nat" where
  "battery_callback level = (if level < 2 / 10 then 60000 else 30000)"

text \<open>
  \<^verbatim>\<open>getRefreshInterval\<close>: the statement \<^verbatim>\<open>navigator.getBattery().then(...)\<close> makes a
  promise of the callback's result and drops it; the function returns at once with the
  value of its last line.
\<close>

definition getRefreshInterval :: "navigator \<Rightarrow> nat" where
  "getRefreshInterval nav =
     (let dropped = map_option (map_option battery_callback) (getBattery nav)
      in if isSlowConnection nav then 45000 else 30000)"

text \<open>
  The \<^verbatim>\<open>DOMContentLoaded\<close> handler: \<^verbatim>\<open>const refreshInterval = getRefreshInterval();
  setInterval(loadSettings, refreshInterval)\<close>. The result is the period of the polling.
\<close>

definition polling_interval :: "navigator \<Rightarrow> nat" where
  "polling_interval nav = getRefreshInterval nav"

section \<open>Concrete worlds and requests\<close>

text \<open>
  A world at the epoch with no data file, no upload and no failing call; the administrator's
  request body; a small JPEG under the field \<open>image\<close>; and the entries of a gallery that
  holds \<open>n\<close> images.
\<close>

definition fresh_world :: world where
  "fresh_world =
     \<lparr>files = (\<lambda>f. None), uploads = (\<lambda>dir name. None), fails = (\<lambda>c. False),
      tears = (\<lambda>c. None), clock = 0, random = 0\<rparr>"

definition admin_body :: req_body where
  "admin_body =
     \<lparr>password = Some (JStr ''noblesrhyl1121''), status = None, notice = None,
      description = Some (JStr ''sale'')\<rparr>"

definition jpeg_upload :: request where
  "jpeg_upload =
     \<lparr>body = admin_body,
      file_part = Some (\<lparr>fieldname = ''image'', originalname = ''a.jpg'',
                          mimetype = ''image/jpeg''\<rparr>, ''JFIF'')\<rparr>"

definition png_upload :: request where
  "png_upload =
     \<lparr>body = admin_body,
      file_part = Some (\<lparr>fieldname = ''image'', originalname = ''b.png'',
                          mimetype = ''image/png''\<rparr>, ''PNG'')\<rparr>"

definition pdf_upload :: request where
  "pdf_upload =
     \<lparr>body = admin_body,
      file_part = Some (\<lparr>fieldname = ''image'', originalname = ''a.pdf'',
                          mimetype = ''application/pdf''\<rparr>, ''PDF'')\<rparr>"

definition entry :: "nat \<Rightarrow> json" where
  "entry i =
     JObj [(''filename'', JStr (''gallery-'' @ dec i @ ''.jpg'')),
           (''originalName'', JStr ''a.jpg''),
           (''description'', JStr []),
           (''uploadedAt'', JStr (toISOString 0))]"

definition gallery_of :: "nat \<Rightarrow> file_text" where
  "gallery_of n = JSON_stringify (JObj [(''images'', JArr (map entry [0..<n]))])"

text \<open>The entries of the stored gallery, when the document read is an object with an array of images.\<close>

definition stored_images :: "world \<Rightarrow> json list option" where
  "stored_images w =
     (case readGallery w of
        Inr (JObj kvs) \<Rightarrow>
          (case map_of kvs ''images'' of Some (JArr xs) \<Rightarrow> Some xs | _ \<Rightarrow> None)
      | _ \<Rightarrow> None)"

text \<open>
  The middleware of an instance passes the file part of a request: it has a file name, it is
  under the field \<open>image\<close>, the file filter accepts it, it is within the size limit,
  and the disk storage can write it.
\<close>

definition accepted_by :: "multer_options \<Rightarrow> world \<Rightarrow> request \<Rightarrow> file_info \<Rightarrow> bytes \<Rightarrow> bool" where
  "accepted_by opts w req file payload \<longleftrightarrow>
     file_part req = Some (file, payload)
     \<and> originalname file \<noteq> []
     \<and> fieldname file = ''image''
     \<and> fileFilter opts file
     \<and> length payload \<le> limits_fileSize opts
     \<and> \<not> fails w (DiskStorage (storage_destination opts))"

text \<open>
  A world whose gallery holds ten images; a world with a hero image and its record; the
  upload of somebody who guesses the password; a world whose upload directories cannot be
  written; a world with two images whose gallery file can be opened for writing and not
  written.
\<close>

definition full_world :: world where
  "full_world = fresh_world\<lparr>files := (\<lambda>f. None)(GALLERY_FILE := Some (gallery_of 10))\<rparr>"

definition world_with_hero :: world where
  "world_with_hero =
     fresh_world
       \<lparr>files := (\<lambda>f. None)(HERO_BG_FILE := Some (JSON_stringify
            (JObj [(''filename'', JStr ''hero-background.jpg''), (''originalName'', JStr ''old.jpg''),
                   (''uploadedAt'', JStr (toISOString 0))]))),
        uploads := (\<lambda>dir name. None)(HERO_UPLOADS_DIR := [''hero-background.jpg'' \<mapsto> ''OLD''])\<rparr>"

definition intruder_upload :: request where
  "intruder_upload = jpeg_upload\<lparr>body := admin_body\<lparr>password := Some (JStr ''guess'')\<rparr>\<rparr>"



section \<open>Evaluation of the platform functions\<close>

lemma dec_0: "dec 0 = ''0''"
  by (simp add: dec.simps)

lemma toISOString_0: "toISOString 0 = ''1970-01-01T00:00:00.000Z''"
  by (simp add: toISOString_def civil_from_days_def pad2_def pad3_def pad4_def digit_def Let_def
      cong: let_weak_cong)

lemma toISOString_1: "toISOString (Suc 0) = ''1970-01-01T00:00:00.001Z''"
  by (simp add: toISOString_def civil_from_days_def pad2_def pad3_def pad4_def digit_def Let_def
      cong: let_weak_cong)

lemma toISOString_5: "toISOString 5 = ''1970-01-01T00:00:00.005Z''"
  by (simp add: toISOString_def civil_from_days_def pad2_def pad3_def pad4_def digit_def Let_def
      cong: let_weak_cong)

lemma toISOString_2025: "toISOString 1762084800000 = ''2025-11-02T12:00:00.000Z''"
  by (simp add: toISOString_def civil_from_days_def pad2_def pad3_def pad4_def digit_def Let_def
      cong: let_weak_cong)

lemma path_extname_jpg: "path_extname ''a.jpg'' = ''.jpg''"
  by (simp add: path_extname_def)

lemma path_extname_png: "path_extname ''b.png'' = ''.png''"
  by (simp add: path_extname_def)

lemma path_extname_none: "path_extname ''README'' = []"
  by (simp add: path_extname_def)

lemma path_extname_dotfile: "path_extname ''.profile'' = []"
  by (simp add: path_extname_def)

lemma path_extname_last_dot: "path_extname ''photo.tar.gz'' = ''.gz''"
  by (simp add: path_extname_def)

lemma ADMIN_PASSWORD_nonempty: "ADMIN_PASSWORD env \<noteq> []"
  by (simp add: ADMIN_PASSWORD_def split: option.split)

lemma readers_total:
  "\<exists>v. readStatus w = Inr v" "\<exists>v. readGallery w = Inr v" "\<exists>v. readHeroBackground w = Inr v"
  by (simp_all add: readStatus_def readGallery_def readHeroBackground_def split: sum.split)

lemma fresh_world_sel:
  "files fresh_world = (\<lambda>f. None)" "uploads fresh_world = (\<lambda>dir name. None)"
  "fails fresh_world = (\<lambda>c. False)" "tears fresh_world = (\<lambda>c. None)"
  "clock fresh_world = 0" "random fresh_world = 0"
  by (simp_all add: fresh_world_def)

lemma full_world_sel:
  "files full_world = (\<lambda>f. None)(GALLERY_FILE := Some (gallery_of 10))"
  "uploads full_world = (\<lambda>dir name. None)"
  "fails full_world = (\<lambda>c. False)" "clock full_world = 0" "random full_world = 0"
  by (simp_all add: full_world_def fresh_world_def)

lemma world_with_hero_sel:
  "files world_with_hero = (\<lambda>f. None)(HERO_BG_FILE := Some (JSON_stringify
            (JObj [(''filename'', JStr ''hero-background.jpg''), (''originalName'', JStr ''old.jpg''),
                   (''uploadedAt'', JStr (toISOString 0))])))"
  "uploads world_with_hero = (\<lambda>dir name. None)(HERO_UPLOADS_DIR := [''hero-background.jpg'' \<mapsto> ''OLD''])"
  "fails world_with_hero = (\<lambda>c. False)" "clock world_with_hero = 0" "random world_with_hero = 0"
  by (simp_all add: world_with_hero_def fresh_world_def)

lemma upload_sel:
  "password (body jpeg_upload) = Some (JStr ''noblesrhyl1121'')"
  "description (body jpeg_upload) = Some (JStr ''sale'')"
  "file_part jpeg_upload =
     Some (\<lparr>fieldname = ''image'', originalname = ''a.jpg'', mimetype = ''image/jpeg''\<rparr>, ''JFIF'')"
  "password (body png_upload) = Some (JStr ''noblesrhyl1121'')"
  "file_part png_upload =
     Some (\<lparr>fieldname = ''image'', originalname = ''b.png'', mimetype = ''image/png''\<rparr>, ''PNG'')"
  "password (body pdf_upload) = Some (JStr ''noblesrhyl1121'')"
  "file_part pdf_upload =
     Some (\<lparr>fieldname = ''image'', originalname = ''a.pdf'', mimetype = ''application/pdf''\<rparr>, ''PDF'')"
  by (simp_all add: jpeg_upload_def png_upload_def pdf_upload_def admin_body_def)

lemma intruder_sel:
  "password (body intruder_upload) = Some (JStr ''guess'')"
  "file_part intruder_upload =
     Some (\<lparr>fieldname = ''image'', originalname = ''a.jpg'', mimetype = ''image/jpeg''\<rparr>, ''JFIF'')"
  by (simp_all add: intruder_upload_def jpeg_upload_def admin_body_def)



lemma uploadGallery_sel:
  "storage_destination uploadGallery = GALLERY_UPLOADS_DIR"
  "storage_filename uploadGallery = galleryStorage_filename"
  "limits_fileSize uploadGallery = 5 * 1024 * 1024"
  "fileFilter uploadGallery = image_fileFilter"
  by (simp_all add: uploadGallery_def)

lemma uploadHero_sel:
  "storage_destination uploadHero = HERO_UPLOADS_DIR"
  "storage_filename uploadHero = heroStorage_filename"
  "limits_fileSize uploadHero = 10 * 1024 * 1024"
  "fileFilter uploadHero = image_fileFilter"
  by (simp_all add: uploadHero_def)

lemma no_uploads_upd: "(\<lambda>dir name. None)(d := \<lambda>name. None) = (\<lambda>dir name. None)"
  by (simp add: fun_eq_iff)

lemma admin_authorized: "authorize None (Some (JStr ''noblesrhyl1121''))"
  by (simp add: authorize_def strict_eq_def ADMIN_PASSWORD_def)

lemma intruder_denied: "\<not> authorize None (Some (JStr ''guess''))"
  by (simp add: authorize_def strict_eq_def ADMIN_PASSWORD_def)

section \<open>What the upload routes do, in general\<close>

lemma multer_single_accepted:
  assumes "accepted_by opts w req file payload"
  shows "multer_single opts ''image'' w req =
           (Inr (Some (stored_as opts w file)),
            put_upload w (storage_destination opts) (storage_filename opts w file) payload)"
  using assms by (simp add: accepted_by_def multer_single_def Let_def)

lemma multer_single_keeps:
  "files (snd (multer_single opts field w req)) = files w"
  "fails (snd (multer_single opts field w req)) = fails w"
  "clock (snd (multer_single opts field w req)) = clock w"
  "tears (snd (multer_single opts field w req)) = tears w"
  by (simp_all add: multer_single_def Let_def put_upload_def fs_unlink_def
      split: option.split prod.split sum.split)

lemma multer_single_stored:
  assumes "multer_single opts ''image'' w req = (Inr (Some f), w1)"
  shows "\<exists>file payload. accepted_by opts w req file payload \<and> f = stored_as opts w file
           \<and> w1 = put_upload w (storage_destination opts) (storage_filename opts w file) payload"
  using assms
  by (auto simp add: accepted_by_def multer_single_def Let_def split: option.splits prod.splits if_splits)

lemma ge10_length: "ge10 ge (Some (JNum (of_nat n))) \<longleftrightarrow> 10 \<le> n"
proof -
  have "(10::rat) \<le> of_nat n \<longleftrightarrow> (of_nat 10 :: rat) \<le> of_nat n" by simp
  also have "\<dots> \<longleftrightarrow> 10 \<le> n" by (simp only: of_nat_le_iff)
  finally show ?thesis by simp
qed

lemma and_then_simps:
  "and_then (Inr x) f = f x" "and_then (Inl e) f = Inl e"
  by (simp_all add: and_then_def)

lemma thrown_in_simps:
  "thrown_in w (Inr x) = Inr x" "thrown_in w (Inl e) = Inl (e, w)"
  by (simp_all add: thrown_in_def)

lemma upload_gallery_try_room:
  assumes "readGallery w = Inr (JObj kvs)" and "map_of kvs ''images'' = Some (JArr xs)"
    and "length xs < 10" and "\<not> fails w (WriteFile GALLERY_FILE)"
  shows "upload_gallery_try ge w req f =
           Inr (Inr (JObj [(''success'', JBool True), (''image'', imageData w req f)]),
                w\<lparr>files := (files w)(GALLERY_FILE := Some (JSON_stringify
                     (JObj (AList.update ''images'' (JArr (xs @ [imageData w req f])) kvs))))\<rparr>)"
  using assms
  by (simp add: upload_gallery_try_def and_then_simps thrown_in_simps ge10_length images_push_def
      writeGallery_def fs_writeFile_def)

lemma upload_gallery_try_full:
  assumes "readGallery w = Inr (JObj kvs)" and "map_of kvs ''images'' = Some (JArr xs)"
    and "10 \<le> length xs"
  shows "upload_gallery_try ge w req f =
           and_then (thrown_in w (fs_unlink w (destination f) (filename f)))
             (\<lambda>w'. Inr (Inl GalleryFull, w'))"
  using assms
  by (simp add: upload_gallery_try_def and_then_simps thrown_in_simps ge10_length)


lemma upload_gallery_try_outcome:
  assumes "upload_gallery_try ge w req f = Inr (r, w')"
  shows "fails w' = fails w \<and> clock w' = clock w
         \<and> ((r = Inl GalleryFull \<and> files w' = files w)
             \<or> (\<exists>kvs xs. readGallery w = Inr (JObj kvs) \<and> map_of kvs ''images'' = Some (JArr xs)
                   \<and> length xs < 10
                   \<and> r = Inr (JObj [(''success'', JBool True), (''image'', imageData w req f)])
                   \<and> w' = w\<lparr>files := (files w)(GALLERY_FILE := Some (JSON_stringify
                        (JObj (AList.update ''images'' (JArr (xs @ [imageData w req f])) kvs))))\<rparr>))"
proof -
  obtain g where g: "readGallery w = Inr g"
    using readers_total(2) [of w] by blast
  show ?thesis
  proof (cases "ge10 ge (projr (get_length (projr (get_images g))))")
    case True
    with assms g show ?thesis
      by (auto simp add: upload_gallery_try_def and_then_def thrown_in_def fs_unlink_def
          split: sum.splits option.splits if_splits)
  next
    case False
    with assms g show ?thesis
      by (auto simp add: upload_gallery_try_def and_then_def thrown_in_def images_push_def
          writeGallery_def fs_writeFile_def ge10_length
          split: sum.splits option.splits json.splits if_splits)
  qed
qed

lemma upload_gallery_try_thrown:
  assumes "upload_gallery_try ge w req f = Inl (e, w')"
  shows "fails w' = fails w \<and> clock w' = clock w \<and> uploads w' = uploads w
         \<and> (files w' = files w
             \<or> (fails w (WriteFile GALLERY_FILE) \<and> tears w (WriteFile GALLERY_FILE) \<noteq> None
                 \<and> files w' = (files w)(GALLERY_FILE := Some Malformed)))"
proof -
  obtain g where g: "readGallery w = Inr g"
    using readers_total(2) [of w] by blast
  show ?thesis
  proof (cases "ge10 ge (projr (get_length (projr (get_images g))))")
    case True
    with assms g show ?thesis
      by (auto simp add: upload_gallery_try_def and_then_def thrown_in_def fs_unlink_def
          split: sum.splits option.splits if_splits)
  next
    case False
    with assms g show ?thesis
      by (auto simp add: upload_gallery_try_def and_then_def thrown_in_def images_push_def
          writeGallery_def fs_writeFile_def
          split: sum.splits option.splits json.splits if_splits)
  qed
qed

lemma post_upload_gallery_outcome:
  assumes "post_upload_gallery ge env w req = (r, w')"
  shows "fails w' = fails w \<and> clock w' = clock w
         \<and> (case r of
               Inl e \<Rightarrow>
                 files w' = files w
                 \<or> (e = UploadFailed \<and> fails w (WriteFile GALLERY_FILE)
                     \<and> tears w (WriteFile GALLERY_FILE) \<noteq> None
                     \<and> files w' = (files w)(GALLERY_FILE := Some Malformed))
             | Inr v \<Rightarrow>
                 (\<exists>file payload kvs xs.
                    accepted_by uploadGallery w req file payload
                    \<and> readGallery w = Inr (JObj kvs) \<and> map_of kvs ''images'' = Some (JArr xs)
                    \<and> length xs < 10
                    \<and> v = JObj [(''success'', JBool True),
                                 (''image'', imageData w req (stored_as uploadGallery w file))]
                    \<and> uploads w' GALLERY_UPLOADS_DIR (galleryStorage_filename w file) = Some payload
                    \<and> files w' = (files w)(GALLERY_FILE := Some (JSON_stringify
                         (JObj (AList.update ''images''
                            (JArr (xs @ [imageData w req (stored_as uploadGallery w file)])) kvs))))))"
proof -
  obtain m w1 where m: "multer_single uploadGallery ''image'' w req = (m, w1)"
    by (cases "multer_single uploadGallery ''image'' w req")
  have keep: "files w1 = files w" "fails w1 = fails w" "clock w1 = clock w"
    using multer_single_keeps [of uploadGallery "''image''" w req] m by simp_all
  have tr: "tears w1 = tears w"
    using multer_single_keeps(4) [of uploadGallery "''image''" w req] m by simp
  show ?thesis
  proof (cases m)
    case (Inl e)
    with assms m keep show ?thesis by (auto simp add: post_upload_gallery_def)
  next
    case (Inr fo)
    show ?thesis
    proof (cases fo)
      case None
      with assms m Inr keep show ?thesis
        by (auto simp add: post_upload_gallery_def upload_gallery_handler_def split: if_splits)
    next
      case (Some f)
      from multer_single_stored [of uploadGallery w req f w1] m Inr Some
      obtain fl payload where acc: "accepted_by uploadGallery w req fl payload"
        and f: "f = stored_as uploadGallery w fl"
        and w1: "w1 = put_upload w GALLERY_UPLOADS_DIR (galleryStorage_filename w fl) payload"
        by (auto simp add: uploadGallery_def)
      have rd: "readGallery w1 = readGallery w"
        using keep by (simp add: readGallery_def fs_readFile_def)
      have img: "imageData w1 req f = imageData w req f"
        using keep by (simp add: imageData_def)
      have h: "upload_gallery_handler ge env w1 req (Some f) = (r, w')"
        using assms m Inr Some by (simp add: post_upload_gallery_def)
      show ?thesis
      proof (cases "authorize env (password (body req))")
        case False
        with h keep show ?thesis by (auto simp add: upload_gallery_handler_def)
      next
        case True
        show ?thesis
        proof (cases "upload_gallery_try ge w1 req f")
          case (Inl ew)
          obtain e0 w2 where ew: "ew = (e0, w2)" by (cases ew)
          from Inl ew have t: "upload_gallery_try ge w1 req f = Inl (e0, w2)" by simp
          from h True t have r: "r = Inl UploadFailed" "w' = w2"
            by (simp_all add: upload_gallery_handler_def)
          from upload_gallery_try_thrown [OF t] keep tr r show ?thesis by auto
        next
          case (Inr res)
          with h True have t: "upload_gallery_try ge w1 req f = Inr (r, w')"
            by (simp add: upload_gallery_handler_def)
          from upload_gallery_try_outcome [OF t] keep rd img acc f w1
          show ?thesis
            by (auto simp add: put_upload_def)
        qed
      qed
    qed
  qed
qed


lemma stored_images_cong:
  assumes "files w' = files w" and "fails w' = fails w"
  shows "stored_images w' = stored_images w"
  using assms by (simp add: stored_images_def readGallery_def fs_readFile_def)

lemma stored_images_read:
  assumes "stored_images w = Some xs"
  shows "\<exists>kvs. readGallery w = Inr (JObj kvs) \<and> map_of kvs ''images'' = Some (JArr xs)"
  using assms
  by (auto simp add: stored_images_def split: sum.splits json.splits option.splits)

lemma stored_images_pushed:
  assumes "readGallery w = Inr (JObj kvs)" and "map_of kvs ''images'' = Some (JArr xs)"
    and "fails w' = fails w"
    and "files w' = (files w)(GALLERY_FILE := Some (JSON_stringify
           (JObj (AList.update ''images'' (JArr (xs @ [e])) kvs))))"
  shows "stored_images w' = (if fails w (ReadFile GALLERY_FILE) then Some xs else Some (xs @ [e]))"
  using assms
  by (auto simp add: stored_images_def readGallery_def fs_readFile_def and_then_def
      JSON_stringify_def update_conv')

lemma stored_images_torn:
  assumes "files w GALLERY_FILE = Some Malformed"
  shows "stored_images w = Some []"
  using assms by (simp add: stored_images_def readGallery_def fs_readFile_def and_then_def)

lemma post_upload_gallery_Inl:
  assumes "post_upload_gallery ge env w req = (Inl e, w')"
  shows "files w' = files w
         \<or> (e = UploadFailed \<and> fails w (WriteFile GALLERY_FILE)
             \<and> tears w (WriteFile GALLERY_FILE) \<noteq> None
             \<and> files w' = (files w)(GALLERY_FILE := Some Malformed))"
    "fails w' = fails w" "clock w' = clock w"
  using post_upload_gallery_outcome [OF assms] by simp_all

lemma post_upload_gallery_Inr:
  assumes "post_upload_gallery ge env w req = (Inr v, w')"
  obtains fl payload kvs xs where
    "accepted_by uploadGallery w req fl payload"
    "readGallery w = Inr (JObj kvs)" "map_of kvs ''images'' = Some (JArr xs)" "length xs < 10"
    "v = JObj [(''success'', JBool True), (''image'', imageData w req (stored_as uploadGallery w fl))]"
    "uploads w' GALLERY_UPLOADS_DIR (galleryStorage_filename w fl) = Some payload"
    "files w' = (files w)(GALLERY_FILE := Some (JSON_stringify
       (JObj (AList.update ''images''
          (JArr (xs @ [imageData w req (stored_as uploadGallery w fl)])) kvs))))"
    "fails w' = fails w" "clock w' = clock w"
proof -
  from post_upload_gallery_outcome [OF assms]
  have f: "fails w' = fails w" "clock w' = clock w"
    and ex: "\<exists>fl payload kvs xs.
                    accepted_by uploadGallery w req fl payload
                    \<and> readGallery w = Inr (JObj kvs) \<and> map_of kvs ''images'' = Some (JArr xs)
                    \<and> length xs < 10
                    \<and> v = JObj [(''success'', JBool True),
                                 (''image'', imageData w req (stored_as uploadGallery w fl))]
                    \<and> uploads w' GALLERY_UPLOADS_DIR (galleryStorage_filename w fl) = Some payload
                    \<and> files w' = (files w)(GALLERY_FILE := Some (JSON_stringify
                         (JObj (AList.update ''images''
                            (JArr (xs @ [imageData w req (stored_as uploadGallery w fl)])) kvs))))"
    by simp_all
  from ex obtain fl payload kvs xs where
      "accepted_by uploadGallery w req fl payload
                    \<and> readGallery w = Inr (JObj kvs) \<and> map_of kvs ''images'' = Some (JArr xs)
                    \<and> length xs < 10
                    \<and> v = JObj [(''success'', JBool True),
                                 (''image'', imageData w req (stored_as uploadGallery w fl))]
                    \<and> uploads w' GALLERY_UPLOADS_DIR (galleryStorage_filename w fl) = Some payload
                    \<and> files w' = (files w)(GALLERY_FILE := Some (JSON_stringify
                         (JObj (AList.update ''images''
                            (JArr (xs @ [imageData w req (stored_as uploadGallery w fl)])) kvs))))"
    by (elim exE)
  with f show thesis by (elim conjE) (rule that)
qed

lemma gallery_invariant:
  assumes a: "stored_images w = Some xs" "length xs \<le> 10"
  shows "\<exists>ys. stored_images (snd (post_upload_gallery ge env w req)) = Some ys \<and> length ys \<le> 10"
proof -
  obtain r w' where p: "post_upload_gallery ge env w req = (r, w')"
    by (cases "post_upload_gallery ge env w req")
  show ?thesis
  proof (cases r)
    case (Inl e)
    with p have p': "post_upload_gallery ge env w req = (Inl e, w')" by simp
    show ?thesis
    proof (cases "files w' = files w")
      case True
      then have "stored_images w' = stored_images w"
        using post_upload_gallery_Inl(2) [OF p'] by (rule stored_images_cong)
      with a p show ?thesis by simp
    next
      case False
      with post_upload_gallery_Inl(1) [OF p'] have "files w' GALLERY_FILE = Some Malformed"
        by simp
      then have "stored_images w' = Some []" by (rule stored_images_torn)
      with p show ?thesis by simp
    qed
  next
    case (Inr v)
    with p have p': "post_upload_gallery ge env w req = (Inr v, w')" by simp
    from p' obtain fl payload kvs ys where acc: "accepted_by uploadGallery w req fl payload"
      and rd: "readGallery w = Inr (JObj kvs)"
      "map_of kvs ''images'' = Some (JArr ys)" "length ys < 10"
      "files w' = (files w)(GALLERY_FILE := Some (JSON_stringify
           (JObj (AList.update ''images''
              (JArr (ys @ [imageData w req (stored_as uploadGallery w fl)])) kvs))))"
      "fails w' = fails w"
      by (rule post_upload_gallery_Inr)
    have "stored_images w' =
        (if fails w (ReadFile GALLERY_FILE) then Some ys
         else Some (ys @ [imageData w req (stored_as uploadGallery w fl)]))"
      using rd(1) rd(2) rd(5) rd(4) by (rule stored_images_pushed)
    with rd(3) have "\<exists>zs. stored_images w' = Some zs \<and> length zs \<le> 10"
      by simp
    with p show ?thesis by simp
  qed
qed

lemma readGallery_put_upload: "readGallery (put_upload w dir name b) = readGallery w"
  by (simp add: readGallery_def fs_readFile_def put_upload_def)

lemma gallery_room:
  assumes auth: "authorize env (password (body req))"
    and acc: "accepted_by uploadGallery w req fl payload"
    and st: "stored_images w = Some xs" and room: "length xs < 10"
    and wr: "\<not> fails w (WriteFile GALLERY_FILE)"
  shows "\<exists>kvs. readGallery w = Inr (JObj kvs) \<and> map_of kvs ''images'' = Some (JArr xs)
           \<and> post_upload_gallery ge env w req =
      (Inr (JObj [(''success'', JBool True),
                  (''image'', imageData w req (stored_as uploadGallery w fl))]),
       w\<lparr>files := (files w)(GALLERY_FILE := Some (JSON_stringify
            (JObj (AList.update ''images''
               (JArr (xs @ [imageData w req (stored_as uploadGallery w fl)])) kvs)))),
          uploads := (uploads w)(GALLERY_UPLOADS_DIR :=
             (uploads w GALLERY_UPLOADS_DIR)(galleryStorage_filename w fl \<mapsto> payload))\<rparr>)"
proof -
  from st obtain kvs where rd: "readGallery w = Inr (JObj kvs)" "map_of kvs ''images'' = Some (JArr xs)"
    using stored_images_read by blast
  let ?w1 = "put_upload w GALLERY_UPLOADS_DIR (galleryStorage_filename w fl) payload"
  let ?f = "stored_as uploadGallery w fl"
  have m: "multer_single uploadGallery ''image'' w req = (Inr (Some ?f), ?w1)"
    using multer_single_accepted [OF acc] by (simp add: uploadGallery_def)
  have rd1: "readGallery ?w1 = Inr (JObj kvs)"
    using rd by (simp add: readGallery_put_upload)
  have img: "imageData ?w1 req ?f = imageData w req ?f"
    by (simp add: imageData_def put_upload_def)
  have wr1: "\<not> fails ?w1 (WriteFile GALLERY_FILE)"
    using wr by (simp add: put_upload_def)
  have t: "upload_gallery_try ge ?w1 req ?f =
      Inr (Inr (JObj [(''success'', JBool True), (''image'', imageData ?w1 req ?f)]),
           ?w1\<lparr>files := (files ?w1)(GALLERY_FILE := Some (JSON_stringify
              (JObj (AList.update ''images'' (JArr (xs @ [imageData ?w1 req ?f])) kvs))))\<rparr>)"
    using rd1 rd(2) room wr1 by (rule upload_gallery_try_room)
  have "post_upload_gallery ge env w req =
      (Inr (JObj [(''success'', JBool True), (''image'', imageData w req ?f)]),
       w\<lparr>files := (files w)(GALLERY_FILE := Some (JSON_stringify
            (JObj (AList.update ''images'' (JArr (xs @ [imageData w req ?f])) kvs)))),
          uploads := (uploads w)(GALLERY_UPLOADS_DIR :=
             (uploads w GALLERY_UPLOADS_DIR)(galleryStorage_filename w fl \<mapsto> payload))\<rparr>)"
    using auth m t
    by (simp add: post_upload_gallery_def upload_gallery_handler_def img) (simp add: put_upload_def)
  with rd show ?thesis by blast
qed


lemma gallery_full:
  assumes auth: "authorize env (password (body req))"
    and acc: "accepted_by uploadGallery w req fl payload"
    and st: "stored_images w = Some xs" and full: "10 \<le> length xs"
    and ul: "\<not> fails w (Unlink GALLERY_UPLOADS_DIR)"
  shows "post_upload_gallery ge env w req =
      (Inl GalleryFull,
       w\<lparr>uploads := (uploads w)(GALLERY_UPLOADS_DIR :=
               (uploads w GALLERY_UPLOADS_DIR)(galleryStorage_filename w fl := None))\<rparr>)"
proof -
  from st obtain kvs where rd: "readGallery w = Inr (JObj kvs)" "map_of kvs ''images'' = Some (JArr xs)"
    using stored_images_read by blast
  let ?w1 = "put_upload w GALLERY_UPLOADS_DIR (galleryStorage_filename w fl) payload"
  let ?f = "stored_as uploadGallery w fl"
  have m: "multer_single uploadGallery ''image'' w req = (Inr (Some ?f), ?w1)"
    using multer_single_accepted [OF acc] by (simp add: uploadGallery_def)
  have rd1: "readGallery ?w1 = Inr (JObj kvs)"
    using rd by (simp add: readGallery_put_upload)
  have t: "upload_gallery_try ge ?w1 req ?f =
      and_then (thrown_in ?w1 (fs_unlink ?w1 (destination ?f) (filename ?f)))
        (\<lambda>w'. Inr (Inl GalleryFull, w'))"
    using rd1 rd(2) full by (rule upload_gallery_try_full)
  show ?thesis
    using auth m t ul
    by (simp add: post_upload_gallery_def upload_gallery_handler_def fs_unlink_def and_then_def
        thrown_in_def put_upload_def stored_as_def uploadGallery_def)
qed

lemma stored_images_full_world: "stored_images full_world = Some (map entry [0..<10])"
  by (simp add: stored_images_def readGallery_def fs_readFile_def and_then_def full_world_sel
      gallery_of_def JSON_stringify_def)

lemma stored_images_fresh_world: "stored_images fresh_world = Some []"
  by (simp add: stored_images_def readGallery_def fs_readFile_def and_then_def fresh_world_sel)


lemma jpeg_accepted:
  assumes "\<not> fails w (DiskStorage GALLERY_UPLOADS_DIR)"
  shows "accepted_by uploadGallery w jpeg_upload
      \<lparr>fieldname = ''image'', originalname = ''a.jpg'', mimetype = ''image/jpeg''\<rparr> ''JFIF''"
  using assms by (simp add: accepted_by_def uploadGallery_sel image_fileFilter_def upload_sel)

lemma jpeg_gallery_name:
  "galleryStorage_filename w
      \<lparr>fieldname = ''image'', originalname = ''a.jpg'', mimetype = ''image/jpeg''\<rparr>
      = ''gallery-'' @ dec (clock w) @ ''-'' @ dec (random w) @ ''.jpg''"
  by (simp add: galleryStorage_filename_def path_extname_jpg)



lemma intruder_gallery:
  "fst (post_upload_gallery ge None fresh_world intruder_upload) = Inl Unauthorized"
  by (simp add: post_upload_gallery_def multer_single_def upload_gallery_handler_def Let_def
      intruder_sel intruder_denied uploadGallery_sel image_fileFilter_def fresh_world_sel)

lemma intruder_hero:
  "fst (post_upload_hero None world_with_hero intruder_upload) = Inl Unauthorized"
  by (simp add: post_upload_hero_def multer_single_def upload_hero_handler_def Let_def
      intruder_sel intruder_denied uploadHero_sel image_fileFilter_def world_with_hero_sel)






section \<open>The store\<close>

text \<open>
  Claim C2. \<open>readStatus\<close> always returns a value and never an exception. When the status
  file is missing, when its text does not parse, and when reading it fails, the value is the
  default record: status false, empty notice, \<open>lastUpdated\<close> the current time.
\<close>

theorem readStatus_default_on_failure:
  "(\<exists>v. readStatus w = Inr v) \<and>
   (files w DATA_FILE = None \<or> files w DATA_FILE = Some Malformed \<or> fails w (ReadFile DATA_FILE)
      \<longrightarrow> readStatus w =
            Inr (JObj [(''status'', JBool False), (''notice'', JStr []),
                       (''lastUpdated'', JStr (toISOString (clock w)))]))"
  by (auto simp add: readStatus_def fs_readFile_def and_then_def split: sum.split option.split)

theorem readStatus_default_on_failure_witness:
  "readStatus fresh_world =
     Inr (JObj [(''status'', JBool False), (''notice'', JStr []),
                (''lastUpdated'', JStr ''1970-01-01T00:00:00.000Z'')])
   \<and> readStatus (fresh_world\<lparr>files := (\<lambda>f. Some Malformed), clock := 5\<rparr>) =
     Inr (JObj [(''status'', JBool False), (''notice'', JStr []),
                (''lastUpdated'', JStr ''1970-01-01T00:00:00.005Z'')])
   \<and> readStatus (fresh_world\<lparr>files := (\<lambda>f. Some (JsonText (JBool True))), fails := (\<lambda>c. True)\<rparr>) =
     Inr (JObj [(''status'', JBool False), (''notice'', JStr []),
                (''lastUpdated'', JStr ''1970-01-01T00:00:00.000Z'')])"
  using readStatus_default_on_failure [of fresh_world]
    readStatus_default_on_failure [of "fresh_world\<lparr>files := (\<lambda>f. Some Malformed), clock := 5\<rparr>"]
    readStatus_default_on_failure
      [of "fresh_world\<lparr>files := (\<lambda>f. Some (JsonText (JBool True))), fails := (\<lambda>c. True)\<rparr>"]
  by (simp add: fresh_world_def toISOString_0 toISOString_5)

text \<open>
  Claim C3. Let the clock show \<open>clock w\<close> before the call and let \<open>d\<close> milliseconds pass
  until \<open>writeStatus\<close> runs with an \<open>isOpen\<close> and a notice. Whatever the status file
  held, and provided the write itself does not fail, \<open>writeStatus\<close> returns the record
  with these two values and with \<open>lastUpdated\<close> the time \<open>t\<close> of the call, which is not
  before \<open>clock w\<close>; the status file then holds exactly this record and nothing else has
  changed; and a later \<open>readStatus\<close> (that can read the file) returns this record.
\<close>

theorem writeStatus_then_readStatus:
  assumes "\<not> fails w (WriteFile DATA_FILE)"
  shows "let t = clock w + d;
             statusData = JObj [(''status'', JBool isOpen), (''notice'', msg),
                                (''lastUpdated'', JStr (toISOString t))];
             w' = (advance d w)\<lparr>files := (files w)(DATA_FILE := Some (JSON_stringify statusData))\<rparr>
         in clock w \<le> t
            \<and> writeStatus (advance d w) [(''status'', JBool isOpen), (''notice'', msg)]
                = Inr (statusData, w')
            \<and> (\<not> fails w (ReadFile DATA_FILE)
                 \<longrightarrow> readStatus (advance d' w') = Inr statusData)"
  using assms
  by (simp add: Let_def writeStatus_def readStatus_def fs_writeFile_def fs_readFile_def
      and_then_def advance_def JSON_stringify_def)

theorem writeStatus_then_readStatus_witness:
  "writeStatus (advance 5 (fresh_world\<lparr>files := (\<lambda>f. Some Malformed)\<rparr>))
     [(''status'', JBool True), (''notice'', JStr ''Back at 9'')]
     = Inr (JObj [(''status'', JBool True), (''notice'', JStr ''Back at 9''),
                  (''lastUpdated'', JStr ''1970-01-01T00:00:00.005Z'')],
            fresh_world\<lparr>files := (\<lambda>f. Some Malformed)(DATA_FILE := Some (JsonText
               (JObj [(''status'', JBool True), (''notice'', JStr ''Back at 9''),
                      (''lastUpdated'', JStr ''1970-01-01T00:00:00.005Z'')]))), clock := 5\<rparr>)
   \<and> readStatus (advance 7 (fresh_world\<lparr>files := (\<lambda>f. Some Malformed)(DATA_FILE := Some (JsonText
               (JObj [(''status'', JBool True), (''notice'', JStr ''Back at 9''),
                      (''lastUpdated'', JStr ''1970-01-01T00:00:00.005Z'')]))), clock := 5\<rparr>))
     = Inr (JObj [(''status'', JBool True), (''notice'', JStr ''Back at 9''),
                  (''lastUpdated'', JStr ''1970-01-01T00:00:00.005Z'')])"
  using writeStatus_then_readStatus
    [of "fresh_world\<lparr>files := (\<lambda>f. Some Malformed)\<rparr>" 5 True "JStr ''Back at 9''" 7]
  by (simp add: fresh_world_def advance_def JSON_stringify_def toISOString_5 Let_def)

section \<open>Defaults and their round trip\<close>

text \<open>
  Claim C7 says that writing the default of a document and reading it back returns the
  identical record, for each of the three documents. For the status document it does not:
  \<open>writeStatus\<close> stamps \<open>lastUpdated\<close> anew. With no status file at the epoch,
  \<open>readStatus\<close> returns the default stamped \<^verbatim>\<open>1970-01-01T00:00:00.000Z\<close>; written back one
  millisecond later and read again, the record is stamped \<^verbatim>\<open>1970-01-01T00:00:00.001Z\<close>.
\<close>

theorem status_default_roundtrip_counterexample:
  "readStatus fresh_world =
     Inr (JObj [(''status'', JBool False), (''notice'', JStr []),
                (''lastUpdated'', JStr ''1970-01-01T00:00:00.000Z'')])
   \<and> fst (projr (writeStatus (advance 1 fresh_world)
                    [(''status'', JBool False), (''notice'', JStr []),
                     (''lastUpdated'', JStr ''1970-01-01T00:00:00.000Z'')])) =
       JObj [(''status'', JBool False), (''notice'', JStr []),
             (''lastUpdated'', JStr ''1970-01-01T00:00:00.001Z'')]
   \<and> readStatus (snd (projr (writeStatus (advance 1 fresh_world)
                    [(''status'', JBool False), (''notice'', JStr []),
                     (''lastUpdated'', JStr ''1970-01-01T00:00:00.000Z'')]))) =
       Inr (JObj [(''status'', JBool False), (''notice'', JStr []),
                  (''lastUpdated'', JStr ''1970-01-01T00:00:00.001Z'')])
   \<and> readStatus (snd (projr (writeStatus (advance 1 fresh_world)
                    [(''status'', JBool False), (''notice'', JStr []),
                     (''lastUpdated'', JStr ''1970-01-01T00:00:00.000Z'')])))
       \<noteq> readStatus fresh_world"
  by (simp add: readStatus_def writeStatus_def fs_readFile_def fs_writeFile_def and_then_def
      advance_def fresh_world_def JSON_stringify_def toISOString_0 toISOString_1 Let_def)

text \<open>
  Claim C7, amended. Reading a status, gallery or hero document whose file does not exist
  yields the default: status false with an empty notice and the current time; no images;
  no filename and no upload time. Writing the default gallery or the default hero record
  and reading it back returns the identical record. Writing the default status record
  (read at any time \<open>t0\<close>) and reading it back returns status false and an empty notice
  with \<open>lastUpdated\<close> the time of the write, which is the default as of that time. Writes
  and reads are assumed not to fail.
\<close>

theorem default_roundtrip:
  "(files w DATA_FILE = None \<longrightarrow>
      readStatus w = Inr (JObj [(''status'', JBool False), (''notice'', JStr []),
                                (''lastUpdated'', JStr (toISOString (clock w)))]))
   \<and> (files w GALLERY_FILE = None \<longrightarrow> readGallery w = Inr (JObj [(''images'', JArr [])]))
   \<and> (files w HERO_BG_FILE = None \<longrightarrow>
        readHeroBackground w = Inr (JObj [(''filename'', JNull), (''uploadedAt'', JNull)]))
   \<and> (\<not> fails w (WriteFile GALLERY_FILE) \<and> \<not> fails w (ReadFile GALLERY_FILE) \<longrightarrow>
        (\<exists>w'. writeGallery w (JObj [(''images'', JArr [])]) = Inr (JObj [(''images'', JArr [])], w')
              \<and> readGallery (advance d w') = Inr (JObj [(''images'', JArr [])])))
   \<and> (\<not> fails w (WriteFile HERO_BG_FILE) \<and> \<not> fails w (ReadFile HERO_BG_FILE) \<longrightarrow>
        (\<exists>w'. writeHeroBackground w (JObj [(''filename'', JNull), (''uploadedAt'', JNull)])
                = Inr (JObj [(''filename'', JNull), (''uploadedAt'', JNull)], w')
              \<and> readHeroBackground (advance d w')
                = Inr (JObj [(''filename'', JNull), (''uploadedAt'', JNull)])))
   \<and> (\<not> fails w (WriteFile DATA_FILE) \<and> \<not> fails w (ReadFile DATA_FILE) \<longrightarrow>
        (\<exists>w'. writeStatus w [(''status'', JBool False), (''notice'', JStr []),
                               (''lastUpdated'', JStr (toISOString t0))]
                = Inr (JObj [(''status'', JBool False), (''notice'', JStr []),
                             (''lastUpdated'', JStr (toISOString (clock w)))], w')
              \<and> readStatus (advance d w')
                = Inr (JObj [(''status'', JBool False), (''notice'', JStr []),
                             (''lastUpdated'', JStr (toISOString (clock w)))])))"
  by (simp add: readStatus_def readGallery_def readHeroBackground_def writeStatus_def
      writeGallery_def writeHeroBackground_def fs_readFile_def fs_writeFile_def and_then_def
      advance_def JSON_stringify_def Let_def)

theorem default_roundtrip_witness:
  "readStatus fresh_world =
     Inr (JObj [(''status'', JBool False), (''notice'', JStr []),
                (''lastUpdated'', JStr ''1970-01-01T00:00:00.000Z'')])
   \<and> readGallery fresh_world = Inr (JObj [(''images'', JArr [])])
   \<and> readHeroBackground fresh_world = Inr (JObj [(''filename'', JNull), (''uploadedAt'', JNull)])
   \<and> (\<exists>w'. writeGallery fresh_world (JObj [(''images'', JArr [])])
              = Inr (JObj [(''images'', JArr [])], w')
            \<and> readGallery (advance 3 w') = Inr (JObj [(''images'', JArr [])]))
   \<and> (\<exists>w'. writeHeroBackground fresh_world (JObj [(''filename'', JNull), (''uploadedAt'', JNull)])
              = Inr (JObj [(''filename'', JNull), (''uploadedAt'', JNull)], w')
            \<and> readHeroBackground (advance 3 w')
              = Inr (JObj [(''filename'', JNull), (''uploadedAt'', JNull)]))
   \<and> (\<exists>w'. writeStatus fresh_world [(''status'', JBool False), (''notice'', JStr []),
                                      (''lastUpdated'', JStr ''1970-01-01T00:00:00.000Z'')]
              = Inr (JObj [(''status'', JBool False), (''notice'', JStr []),
                           (''lastUpdated'', JStr ''1970-01-01T00:00:00.000Z'')], w')
            \<and> readStatus (advance 3 w')
              = Inr (JObj [(''status'', JBool False), (''notice'', JStr []),
                           (''lastUpdated'', JStr ''1970-01-01T00:00:00.000Z'')]))"
  using default_roundtrip [of fresh_world 3 0]
  by (simp add: fresh_world_def toISOString_0)

section \<open>The access guard is exact\<close>

text \<open>
  Claim C6. \<open>authorize\<close> holds exactly for the supplied secret that is the string equal to
  the configured admin secret. It denies an absent secret, the empty string, and the
  configured secret followed by anything, such as trailing white space. A request it denies
  is answered \<open>Unauthorized\<close> by every handler, with the world unchanged by the handler.
\<close>

theorem authorize_exact:
  "(authorize env suppliedSecret \<longleftrightarrow> suppliedSecret = Some (JStr (ADMIN_PASSWORD env)))
   \<and> \<not> authorize env None
   \<and> \<not> authorize env (Some (JStr []))
   \<and> (ws \<noteq> [] \<longrightarrow> \<not> authorize env (Some (JStr (ADMIN_PASSWORD env @ ws))))
   \<and> (\<not> authorize env (password (body req))
        \<longrightarrow> post_update_status env w req = (Inl Unauthorized, w)
          \<and> upload_gallery_handler ge env w req file = (Inl Unauthorized, w)
          \<and> upload_hero_handler env w req file = (Inl Unauthorized, w))"
  using ADMIN_PASSWORD_nonempty [of env]
  by (auto simp add: authorize_def strict_eq_def post_update_status_def
      upload_gallery_handler_def upload_hero_handler_def)

theorem authorize_exact_witness:
  "authorize None (Some (JStr ''noblesrhyl1121''))
   \<and> \<not> authorize None (Some (JStr ''noblesrhyl1121 ''))
   \<and> \<not> authorize (Some ''s3cret'') (Some (JStr ''noblesrhyl1121''))
   \<and> post_update_status None fresh_world
        \<lparr>body = admin_body\<lparr>password := Some (JStr ''noblesrhyl1121 '')\<rparr>, file_part = None\<rparr>
       = (Inl Unauthorized, fresh_world)"
  using authorize_exact [of None "Some (JStr ''noblesrhyl1121'')" "'' ''"
      "\<lparr>body = admin_body\<lparr>password := Some (JStr ''noblesrhyl1121 '')\<rparr>, file_part = None\<rparr>"
      fresh_world]
    authorize_exact [of "Some ''s3cret''" "Some (JStr ''noblesrhyl1121'')"]
  by (simp add: ADMIN_PASSWORD_def)

section \<open>The status update\<close>

text \<open>
  Claim C10. An authorised update-status request whose write does not fail stores, and
  answers with, a record whose \<open>status\<close> is the boolean true exactly when the submitted
  status is the string \<^verbatim>\<open>'true'\<close> or the boolean true, and false for every other value and
  for none; whose \<open>notice\<close> is the empty string when no notice is submitted (and when the
  submitted one is falsy), else the submitted notice; and whose \<open>lastUpdated\<close> is the
  current time.
\<close>

theorem update_status_coercion:
  assumes "authorize env (password (body req))" and "\<not> fails w (WriteFile DATA_FILE)"
  shows "let statusData =
               JObj [(''status'', JBool (status (body req) = Some (JStr ''true'')
                                         \<or> status (body req) = Some (JBool True))),
                     (''notice'', case notice (body req) of
                                    None \<Rightarrow> JStr []
                                  | Some v \<Rightarrow> if truthy (Some v) then v else JStr []),
                     (''lastUpdated'', JStr (toISOString (clock w)))]
         in post_update_status env w req =
              (Inr (JObj [(''success'', JBool True), (''data'', statusData)]),
               w\<lparr>files := (files w)(DATA_FILE := Some (JSON_stringify statusData))\<rparr>)"
  using assms
  by (auto simp add: post_update_status_def writeStatus_def fs_writeFile_def and_then_def
      strict_eq_def or_empty_def Let_def split: option.split)

theorem update_status_coercion_witness:
  "fst (post_update_status None fresh_world
         \<lparr>body = admin_body\<lparr>status := Some (JStr ''true'')\<rparr>, file_part = None\<rparr>) =
     Inr (JObj [(''success'', JBool True),
                (''data'', JObj [(''status'', JBool True), (''notice'', JStr []),
                                 (''lastUpdated'', JStr ''1970-01-01T00:00:00.000Z'')])])
   \<and> fst (post_update_status None fresh_world
         \<lparr>body = admin_body\<lparr>status := Some (JBool True), notice := Some (JStr ''Rain'')\<rparr>,
          file_part = None\<rparr>) =
     Inr (JObj [(''success'', JBool True),
                (''data'', JObj [(''status'', JBool True), (''notice'', JStr ''Rain''),
                                 (''lastUpdated'', JStr ''1970-01-01T00:00:00.000Z'')])])
   \<and> fst (post_update_status None fresh_world
         \<lparr>body = admin_body\<lparr>status := Some (JStr ''TRUE'')\<rparr>, file_part = None\<rparr>) =
     Inr (JObj [(''success'', JBool True),
                (''data'', JObj [(''status'', JBool False), (''notice'', JStr []),
                                 (''lastUpdated'', JStr ''1970-01-01T00:00:00.000Z'')])])
   \<and> fst (post_update_status None fresh_world
         \<lparr>body = admin_body\<lparr>status := Some (JStr ''1'')\<rparr>, file_part = None\<rparr>) =
     Inr (JObj [(''success'', JBool True),
                (''data'', JObj [(''status'', JBool False), (''notice'', JStr []),
                                 (''lastUpdated'', JStr ''1970-01-01T00:00:00.000Z'')])])
   \<and> fst (post_update_status None fresh_world
         \<lparr>body = admin_body\<lparr>status := Some (JNum 1)\<rparr>, file_part = None\<rparr>) =
     Inr (JObj [(''success'', JBool True),
                (''data'', JObj [(''status'', JBool False), (''notice'', JStr []),
                                 (''lastUpdated'', JStr ''1970-01-01T00:00:00.000Z'')])])
   \<and> fst (post_update_status None fresh_world \<lparr>body = admin_body, file_part = None\<rparr>) =
     Inr (JObj [(''success'', JBool True),
                (''data'', JObj [(''status'', JBool False), (''notice'', JStr []),
                                 (''lastUpdated'', JStr ''1970-01-01T00:00:00.000Z'')])])"
  using update_status_coercion [of None
      "\<lparr>body = admin_body\<lparr>status := Some (JStr ''true'')\<rparr>, file_part = None\<rparr>" fresh_world]
    update_status_coercion [of None
      "\<lparr>body = admin_body\<lparr>status := Some (JBool True), notice := Some (JStr ''Rain'')\<rparr>,
        file_part = None\<rparr>" fresh_world]
    update_status_coercion [of None
      "\<lparr>body = admin_body\<lparr>status := Some (JStr ''TRUE'')\<rparr>, file_part = None\<rparr>" fresh_world]
    update_status_coercion [of None
      "\<lparr>body = admin_body\<lparr>status := Some (JStr ''1'')\<rparr>, file_part = None\<rparr>" fresh_world]
    update_status_coercion [of None
      "\<lparr>body = admin_body\<lparr>status := Some (JNum 1)\<rparr>, file_part = None\<rparr>" fresh_world]
    update_status_coercion [of None "\<lparr>body = admin_body, file_part = None\<rparr>" fresh_world]
  by (simp add: authorize_def strict_eq_def ADMIN_PASSWORD_def admin_body_def fresh_world_def
      toISOString_0 Let_def)

section \<open>Uploads\<close>

text \<open>
  Claim C4. An upload (a named file part under the field \<open>image\<close>) whose MIME type does not
  start with \<^verbatim>\<open>image/\<close> is refused with \<open>RejectedUpload\<close> by the gallery route and by the
  hero route, whatever else the request holds, and the world is as it was: no file is
  written to an upload directory and no document of the store changes.
\<close>

theorem non_image_rejected:
  assumes "file_part req = Some (info, payload)" and "originalname info \<noteq> []"
    and "fieldname info = ''image''" and "\<not> prefix ''image/'' (mimetype info)"
  shows "post_upload_gallery ge env w req = (Inl RejectedUpload, w)
         \<and> post_upload_hero env w req = (Inl RejectedUpload, w)"
  using assms
  by (simp add: post_upload_gallery_def post_upload_hero_def multer_single_def uploadGallery_def
      uploadHero_def image_fileFilter_def Let_def)

theorem non_image_rejected_witness:
  "post_upload_gallery (\<lambda>v. False) None fresh_world pdf_upload = (Inl RejectedUpload, fresh_world)
   \<and> post_upload_hero None fresh_world pdf_upload = (Inl RejectedUpload, fresh_world)
   \<and> post_upload_hero (Some ''s3cret'') world_with_hero pdf_upload
       = (Inl RejectedUpload, world_with_hero)"
  using non_image_rejected
      [of pdf_upload "\<lparr>fieldname = ''image'', originalname = ''a.pdf'', mimetype = ''application/pdf''\<rparr>"
          "''PDF''" "\<lambda>v. False" None fresh_world]
    non_image_rejected
      [of pdf_upload "\<lparr>fieldname = ''image'', originalname = ''a.pdf'', mimetype = ''application/pdf''\<rparr>"
          "''PDF''" "\<lambda>v. False" "Some ''s3cret''" world_with_hero]
  by (simp add: upload_sel)

text \<open>
  Claim C1. The stored gallery never grows beyond ten entries: whatever the request and
  its outcome, a gallery of at most ten entries is a gallery of at most ten entries after
  the gallery route. While the stored gallery has fewer than ten entries, an authorised
  upload that the middleware accepts succeeds (the gallery file being readable and
  writable): the answer carries the new entry, the stored gallery is the old one followed by
  the new entry, and the payload is in the upload directory under the generated name. When
  the stored gallery already holds ten entries (or more), such an upload fails with
  \<open>GalleryFull\<close>, the store is unchanged, the gallery has the same entries, and the file
  just received is deleted again (the unlink not failing), so that the upload directory
  holds no file it did not hold before.
\<close>

theorem gallery_limit:
  "(stored_images w = Some xs \<and> length xs \<le> 10 \<longrightarrow>
      (\<exists>ys. stored_images (snd (post_upload_gallery ge env w req)) = Some ys \<and> length ys \<le> 10))
   \<and> (authorize env (password (body req)) \<and> accepted_by uploadGallery w req info payload
        \<and> stored_images w = Some xs \<and> length xs < 10
        \<and> \<not> fails w (WriteFile GALLERY_FILE) \<and> \<not> fails w (ReadFile GALLERY_FILE) \<longrightarrow>
        fst (post_upload_gallery ge env w req) =
          Inr (JObj [(''success'', JBool True),
                     (''image'', imageData w req (stored_as uploadGallery w info))])
        \<and> stored_images (snd (post_upload_gallery ge env w req)) =
            Some (xs @ [imageData w req (stored_as uploadGallery w info)])
        \<and> uploads (snd (post_upload_gallery ge env w req)) GALLERY_UPLOADS_DIR
            (galleryStorage_filename w info) = Some payload)
   \<and> (authorize env (password (body req)) \<and> accepted_by uploadGallery w req info payload
        \<and> stored_images w = Some xs \<and> 10 \<le> length xs
        \<and> \<not> fails w (Unlink GALLERY_UPLOADS_DIR) \<longrightarrow>
        fst (post_upload_gallery ge env w req) = Inl GalleryFull
        \<and> files (snd (post_upload_gallery ge env w req)) = files w
        \<and> stored_images (snd (post_upload_gallery ge env w req)) = Some xs
        \<and> uploads (snd (post_upload_gallery ge env w req)) =
            (uploads w)(GALLERY_UPLOADS_DIR :=
               (uploads w GALLERY_UPLOADS_DIR)(galleryStorage_filename w info := None)))"
proof (intro conjI impI)
  assume "stored_images w = Some xs \<and> length xs \<le> 10"
  then show "\<exists>ys. stored_images (snd (post_upload_gallery ge env w req)) = Some ys \<and> length ys \<le> 10"
    using gallery_invariant [of w xs ge env req] by simp
next
  assume a: "authorize env (password (body req)) \<and> accepted_by uploadGallery w req info payload
        \<and> stored_images w = Some xs \<and> length xs < 10
        \<and> \<not> fails w (WriteFile GALLERY_FILE) \<and> \<not> fails w (ReadFile GALLERY_FILE)"
  then obtain kvs where rd: "readGallery w = Inr (JObj kvs)" "map_of kvs ''images'' = Some (JArr xs)"
    and p: "post_upload_gallery ge env w req =
      (Inr (JObj [(''success'', JBool True),
                  (''image'', imageData w req (stored_as uploadGallery w info))]),
       w\<lparr>files := (files w)(GALLERY_FILE := Some (JSON_stringify
            (JObj (AList.update ''images''
               (JArr (xs @ [imageData w req (stored_as uploadGallery w info)])) kvs)))),
          uploads := (uploads w)(GALLERY_UPLOADS_DIR :=
             (uploads w GALLERY_UPLOADS_DIR)(galleryStorage_filename w info \<mapsto> payload))\<rparr>)"
    using gallery_room [of env req w info payload xs ge] by blast
  show "fst (post_upload_gallery ge env w req) =
          Inr (JObj [(''success'', JBool True),
                     (''image'', imageData w req (stored_as uploadGallery w info))])"
    using p by simp
  show "uploads (snd (post_upload_gallery ge env w req)) GALLERY_UPLOADS_DIR
            (galleryStorage_filename w info) = Some payload"
    using p by simp
  have "stored_images (snd (post_upload_gallery ge env w req)) =
      (if fails w (ReadFile GALLERY_FILE) then Some xs
       else Some (xs @ [imageData w req (stored_as uploadGallery w info)]))"
    by (rule stored_images_pushed [OF rd]) (simp_all add: p)
  with a show "stored_images (snd (post_upload_gallery ge env w req)) =
            Some (xs @ [imageData w req (stored_as uploadGallery w info)])"
    by simp
next
  assume a: "authorize env (password (body req)) \<and> accepted_by uploadGallery w req info payload
        \<and> stored_images w = Some xs \<and> 10 \<le> length xs
        \<and> \<not> fails w (Unlink GALLERY_UPLOADS_DIR)"
  then have p: "post_upload_gallery ge env w req =
      (Inl GalleryFull,
       w\<lparr>uploads := (uploads w)(GALLERY_UPLOADS_DIR :=
               (uploads w GALLERY_UPLOADS_DIR)(galleryStorage_filename w info := None))\<rparr>)"
    using gallery_full [of env req w info payload xs ge] by simp
  show "fst (post_upload_gallery ge env w req) = Inl GalleryFull"
    using p by simp
  show "files (snd (post_upload_gallery ge env w req)) = files w"
    using p by simp
  have "stored_images (snd (post_upload_gallery ge env w req)) = stored_images w"
    by (rule stored_images_cong) (simp_all add: p)
  with a show "stored_images (snd (post_upload_gallery ge env w req)) = Some xs"
    by simp
  show "uploads (snd (post_upload_gallery ge env w req)) =
            (uploads w)(GALLERY_UPLOADS_DIR :=
               (uploads w GALLERY_UPLOADS_DIR)(galleryStorage_filename w info := None))"
    using p by simp
qed

theorem gallery_limit_witness:
  "fst (post_upload_gallery (\<lambda>v. False) None full_world jpeg_upload) = Inl GalleryFull
   \<and> files (snd (post_upload_gallery (\<lambda>v. False) None full_world jpeg_upload)) = files full_world
   \<and> stored_images (snd (post_upload_gallery (\<lambda>v. False) None full_world jpeg_upload))
       = Some (map entry [0..<10])
   \<and> uploads (snd (post_upload_gallery (\<lambda>v. False) None full_world jpeg_upload))
       = uploads full_world
   \<and> (\<exists>ys. stored_images (snd (post_upload_gallery (\<lambda>v. False) None full_world jpeg_upload))
               = Some ys \<and> length ys \<le> 10)
   \<and> fst (post_upload_gallery (\<lambda>v. False) None fresh_world jpeg_upload) =
       Inr (JObj [(''success'', JBool True),
                  (''image'', JObj [(''filename'', JStr ''gallery-0-0.jpg''),
                                    (''originalName'', JStr ''a.jpg''),
                                    (''description'', JStr ''sale''),
                                    (''uploadedAt'', JStr ''1970-01-01T00:00:00.000Z'')])])
   \<and> stored_images (snd (post_upload_gallery (\<lambda>v. False) None fresh_world jpeg_upload)) =
       Some [JObj [(''filename'', JStr ''gallery-0-0.jpg''),
                   (''originalName'', JStr ''a.jpg''),
                   (''description'', JStr ''sale''),
                   (''uploadedAt'', JStr ''1970-01-01T00:00:00.000Z'')]]
   \<and> uploads (snd (post_upload_gallery (\<lambda>v. False) None fresh_world jpeg_upload))
         GALLERY_UPLOADS_DIR ''gallery-0-0.jpg'' = Some ''JFIF''"
  using gallery_limit [of full_world "map entry [0..<10]" "\<lambda>v. False" None jpeg_upload
      "\<lparr>fieldname = ''image'', originalname = ''a.jpg'', mimetype = ''image/jpeg''\<rparr>" "''JFIF''"]
    gallery_limit [of fresh_world "[]" "\<lambda>v. False" None jpeg_upload
      "\<lparr>fieldname = ''image'', originalname = ''a.jpg'', mimetype = ''image/jpeg''\<rparr>" "''JFIF''"]
  by (simp add: stored_images_full_world stored_images_fresh_world jpeg_accepted jpeg_gallery_name
      admin_authorized upload_sel full_world_sel fresh_world_sel imageData_def stored_as_def
      uploadGallery_sel no_uploads_upd or_empty_def dec_0 toISOString_0)

text \<open>
  Claim C5. An authorised hero upload that the middleware accepts, with the record file
  writable, writes the payload to the file \<open>hero-background\<close> followed by the extension
  of the original name, whatever that file held before; the hero document becomes exactly
  the record of this upload (filename, original name, upload time) and the route answers
  with it; reading the hero document returns it. After a second such upload the hero
  document is exactly the record of the second upload, with nothing left of the first:
  the document is one record, never a list.
\<close>

theorem hero_upload_replaces:
  assumes "authorize env (password (body req))"
    and "accepted_by uploadHero w req info payload"
    and "\<not> fails w (WriteFile HERO_BG_FILE)"
  shows "let name = ''hero-background'' @ path_extname (originalname info);
             hero = JObj [(''filename'', JStr name), (''originalName'', JStr (originalname info)),
                          (''uploadedAt'', JStr (toISOString (clock w)))];
             w' = w\<lparr>files := (files w)(HERO_BG_FILE := Some (JSON_stringify hero)),
                    uploads := (uploads w)(HERO_UPLOADS_DIR := (uploads w HERO_UPLOADS_DIR)(name \<mapsto> payload))\<rparr>
         in post_upload_hero env w req = (Inr (JObj [(''success'', JBool True), (''hero'', hero)]), w')
            \<and> (\<not> fails w (ReadFile HERO_BG_FILE) \<longrightarrow> readHeroBackground w' = Inr hero)
            \<and> (authorize env (password (body req2)) \<and> accepted_by uploadHero w req2 file2 payload2
                 \<longrightarrow> (let name2 = ''hero-background'' @ path_extname (originalname file2);
                          hero2 = JObj [(''filename'', JStr name2),
                                        (''originalName'', JStr (originalname file2)),
                                        (''uploadedAt'', JStr (toISOString (clock w + d)))]
                      in files (snd (post_upload_hero env (advance d w') req2)) HERO_BG_FILE
                           = Some (JSON_stringify hero2)
                         \<and> uploads (snd (post_upload_hero env (advance d w') req2)) HERO_UPLOADS_DIR name2
                           = Some payload2))"
  using assms
  by (simp add: Let_def post_upload_hero_def accepted_by_def multer_single_def
      upload_hero_handler_def writeHeroBackground_def readHeroBackground_def fs_writeFile_def
      fs_readFile_def and_then_def heroData_def stored_as_def put_upload_def uploadHero_def
      heroStorage_filename_def advance_def JSON_stringify_def)

theorem hero_upload_replaces_witness:
  "fst (post_upload_hero None world_with_hero jpeg_upload) =
     Inr (JObj [(''success'', JBool True),
                (''hero'', JObj [(''filename'', JStr ''hero-background.jpg''),
                                 (''originalName'', JStr ''a.jpg''),
                                 (''uploadedAt'', JStr ''1970-01-01T00:00:00.000Z'')])])
   \<and> readHeroBackground (snd (post_upload_hero None world_with_hero jpeg_upload)) =
     Inr (JObj [(''filename'', JStr ''hero-background.jpg''), (''originalName'', JStr ''a.jpg''),
                (''uploadedAt'', JStr ''1970-01-01T00:00:00.000Z'')])
   \<and> uploads world_with_hero HERO_UPLOADS_DIR ''hero-background.jpg'' = Some ''OLD''
   \<and> uploads (snd (post_upload_hero None world_with_hero jpeg_upload)) HERO_UPLOADS_DIR
        ''hero-background.jpg'' = Some ''JFIF''
   \<and> files (snd (post_upload_hero None
               (advance 5 (snd (post_upload_hero None world_with_hero jpeg_upload))) png_upload))
        HERO_BG_FILE =
     Some (JsonText (JObj [(''filename'', JStr ''hero-background.png''),
                           (''originalName'', JStr ''b.png''),
                           (''uploadedAt'', JStr ''1970-01-01T00:00:00.005Z'')]))"
  using hero_upload_replaces [of None jpeg_upload world_with_hero
      "\<lparr>fieldname = ''image'', originalname = ''a.jpg'', mimetype = ''image/jpeg''\<rparr>" "''JFIF''"
      png_upload "\<lparr>fieldname = ''image'', originalname = ''b.png'', mimetype = ''image/png''\<rparr>"
      "''PNG''" 5]
  by (simp add: admin_authorized upload_sel world_with_hero_sel accepted_by_def uploadHero_def
      image_fileFilter_def path_extname_jpg path_extname_png toISOString_0 toISOString_5
      JSON_stringify_def Let_def advance_def)




section \<open>What a failed upload leaves behind\<close>

text \<open>
  A hero upload touches one file of the hero directory, the one it names: a hero file
  stored under another extension stays where it is.
\<close>

lemma hero_upload_keeps_other_files:
  assumes "name \<noteq> heroStorage_filename w info" and "file_part req = Some (info, payload)"
  shows "uploads (snd (post_upload_hero env w req)) HERO_UPLOADS_DIR name
         = uploads w HERO_UPLOADS_DIR name"
  using assms
  by (simp add: post_upload_hero_def multer_single_def upload_hero_handler_def
      writeHeroBackground_def fs_writeFile_def fs_unlink_def and_then_def put_upload_def
      uploadHero_sel Let_def split: sum.split prod.split option.split)

text \<open>
  A hero payload over the limit is cut, written and removed: afterwards the hero directory
  has no file of that name, whether or not it had one before, and whoever sent the request.
\<close>

lemma oversize_hero_upload_removes_file:
  assumes "file_part req = Some (info, payload)" and "originalname info \<noteq> []"
    and "fieldname info = ''image''" and "prefix ''image/'' (mimetype info)"
    and "10 * 1024 * 1024 < length payload"
    and "\<not> fails w (DiskStorage HERO_UPLOADS_DIR)" and "\<not> fails w (Unlink HERO_UPLOADS_DIR)"
  shows "post_upload_hero env w req =
           (Inl PayloadTooLarge,
            w\<lparr>uploads := (uploads w)(HERO_UPLOADS_DIR :=
                 (uploads w HERO_UPLOADS_DIR)(heroStorage_filename w info := None))\<rparr>)"
  using assms
  by (simp add: post_upload_hero_def multer_single_def fs_unlink_def put_upload_def
      uploadHero_sel image_fileFilter_def Let_def)

section \<open>The client's refresh interval\<close>

text \<open>
  Claim C9. The period of the polling is what \<open>getRefreshInterval\<close> returns at once:
  45000 ms on a slow connection and 30000 ms otherwise. It does not depend on the battery:
  whatever \<^verbatim>\<open>navigator.getBattery\<close> is or resolves with, the period is the same, and at a
  battery level under 0.2, where the callback computes 60000 ms, the period is not that
  value.
\<close>

theorem battery_interval_discarded:
  "polling_interval nav = (if isSlowConnection nav then 45000 else 30000)
   \<and> polling_interval (nav\<lparr>getBattery := b\<rparr>) = polling_interval nav
   \<and> (level < 2 / 10 \<longrightarrow>
        battery_callback level = 60000
        \<and> polling_interval (nav\<lparr>getBattery := Some (Some level)\<rparr>) \<noteq> battery_callback level)"
  by (simp add: polling_interval_def getRefreshInterval_def isSlowConnection_def
      battery_callback_def split: option.split)

theorem battery_interval_discarded_witness:
  "battery_callback (1 / 10) = 60000
   \<and> polling_interval \<lparr>connection = Some (Some ''4g''), getBattery = Some (Some (1 / 10))\<rparr> = 30000
   \<and> polling_interval \<lparr>connection = Some (Some ''3g''), getBattery = Some (Some (1 / 10))\<rparr> = 45000
   \<and> polling_interval \<lparr>connection = None, getBattery = None\<rparr> = 30000"
  using battery_interval_discarded
      [of "\<lparr>connection = Some (Some ''4g''), getBattery = Some (Some (1 / 10))\<rparr>"
          "Some (Some (1 / 10))" "1 / 10"]
    battery_interval_discarded
      [of "\<lparr>connection = Some (Some ''3g''), getBattery = Some (Some (1 / 10))\<rparr>"]
    battery_interval_discarded [of "\<lparr>connection = None, getBattery = None\<rparr>"]
  by (simp add: isSlowConnection_def)

end
